theory Spec2Isabelle
  imports Main
begin

section \<open>JavaScript values\<close>

text \<open>
  The values that reach the store's methods.  Numbers are the integers (the numbers
  JavaScript represents exactly up to \<open>2^53\<close>); strings and buffers are sequences of
  8-bit characters, so a buffer and its UTF-8 text coincide; an object is the list of its
  own enumerable properties in the order they were added (JavaScript enumerates
  integer-like names first; a Redis hash has no order); a function is represented by its
  source text and an \<open>Error\<close> object by its message.
\<close>

datatype jsval =
    Undefined
  | Null
  | Bool bool
  | Num int
  | Str string
  | Buf string
  | Arr "jsval list"
  | Obj "(string \<times> jsval) list"
  | Fun string
  | Err string

datatype jstype = TUndefined | TObject | TBoolean | TNumber | TString | TFunction

fun typeof :: "jsval \<Rightarrow> jstype" where
  "typeof Undefined = TUndefined"
| "typeof Null = TObject"
| "typeof (Bool b) = TBoolean"
| "typeof (Num n) = TNumber"
| "typeof (Str s) = TString"
| "typeof (Buf b) = TObject"
| "typeof (Arr xs) = TObject"
| "typeof (Obj m) = TObject"
| "typeof (Fun f) = TFunction"
| "typeof (Err m) = TObject"

text \<open>Truthiness, as tested by \<open>if (key)\<close>, \<open>!key\<close>, \<open>cb && ...\<close> and \<open>cb || noop\<close>.\<close>

fun truthy :: "jsval \<Rightarrow> bool" where
  "truthy Undefined = False"
| "truthy Null = False"
| "truthy (Bool b) = b"
| "truthy (Num n) = (n \<noteq> 0)"
| "truthy (Str s) = (s \<noteq> [])"
| "truthy v = True"

text \<open>\<open>Array.isArray\<close>, \<open>Buffer.isBuffer\<close> and the test \<open>v === Object(v)\<close>.\<close>

fun isArray :: "jsval \<Rightarrow> bool" where
  "isArray (Arr xs) = True"
| "isArray v = False"

fun isBuffer :: "jsval \<Rightarrow> bool" where
  "isBuffer (Buf b) = True"
| "isBuffer v = False"

fun isObject :: "jsval \<Rightarrow> bool" where
  "isObject (Buf b) = True"
| "isObject (Arr xs) = True"
| "isObject (Obj m) = True"
| "isObject (Fun f) = True"
| "isObject (Err m) = True"
| "isObject v = False"

fun elems :: "jsval \<Rightarrow> jsval list" where
  "elems (Arr xs) = xs"
| "elems v = []"

subsection \<open>String forms\<close>

definition digit_char :: "nat \<Rightarrow> char" where
  "digit_char d = char_of (48 + d)"

fun show_nat :: "nat \<Rightarrow> string" where
  "show_nat n = (if n < 10 then [digit_char n] else show_nat (n div 10) @ [digit_char (n mod 10)])"

declare show_nat.simps [simp del]

definition show_int :: "int \<Rightarrow> string" where
  "show_int i = (if i < 0 then CHR ''-'' # show_nat (nat (- i)) else show_nat (nat i))"

fun join_strings :: "string \<Rightarrow> string list \<Rightarrow> string" where
  "join_strings sep [] = []"
| "join_strings sep [x] = x"
| "join_strings sep (x # y # ys) = x @ sep @ join_strings sep (y # ys)"

text \<open>
  \<open>ToString\<close> of the language: an array is its elements joined with a comma, where
  \<open>null\<close> and \<open>undefined\<close> elements contribute the empty string.
\<close>

fun ToString :: "jsval \<Rightarrow> string" where
  "ToString Undefined = ''undefined''"
| "ToString Null = ''null''"
| "ToString (Bool b) = (if b then ''true'' else ''false'')"
| "ToString (Num n) = show_int n"
| "ToString (Str s) = s"
| "ToString (Buf b) = b"
| "ToString (Arr xs) =
     join_strings '','' (map (\<lambda>x. if x = Undefined \<or> x = Null then [] else ToString x) xs)"
| "ToString (Obj m) = ''[object Object]''"
| "ToString (Fun f) = f"
| "ToString (Err m) = (if m = [] then ''Error'' else ''Error: '' @ m)"

definition elem_string :: "jsval \<Rightarrow> string" where
  "elem_string x = (if x = Undefined \<or> x = Null then [] else ToString x)"

text \<open>\<open>Array.prototype.join\<close>: an \<open>undefined\<close> separator means a comma.\<close>

definition join :: "jsval list \<Rightarrow> jsval \<Rightarrow> string" where
  "join xs sep =
     join_strings (if sep = Undefined then '','' else ToString sep) (map elem_string xs)"

section \<open>The store and its configuration\<close>

text \<open>
  The constructor's \<open>options\<close> object, as far as the store's own behaviour reads it; an
  absent option is \<open>Undefined\<close>.  The Redis client is external: the commands sent to it
  are recorded as events below.
\<close>

record options =
  opt_delimiter :: jsval
  opt_autoCast :: jsval

record store =
  delimiter :: jsval
  autoCast :: bool

definition RedisStore :: "options \<Rightarrow> store" where
  "RedisStore opts =
     (let type = typeof (opt_delimiter opts);
          delimiter = (if (type = TString \<and> truthy (opt_delimiter opts)) \<or> type = TNumber
                       then opt_delimiter opts else Str '':'');
          autoCast = (opt_autoCast opts \<noteq> Bool False)
      in \<lparr> delimiter = delimiter, autoCast = autoCast \<rparr>)"

text \<open>\<open>cacheKey\<close>: no \<open>return\<close> is reached for an invalid key, so the result is \<open>undefined\<close>.\<close>

definition cacheKey :: "store \<Rightarrow> jsval \<Rightarrow> jsval" where
  "cacheKey st key =
     (if isArray key \<and> length (elems key) > 0 then Str (join (elems key) (delimiter st))
      else let type = typeof key in
        if (type = TString \<and> truthy key) \<or> type = TNumber then key
        else Undefined)"

section \<open>JSON\<close>

text \<open>
  \<open>JSON.stringify\<close> and \<open>JSON.parse\<close> belong to the language, not to the store; they
  are written out here on the values above, following ECMA-262.  \<open>json_text\<close> is
  \<open>None\<close> where \<open>JSON.stringify\<close> yields \<open>undefined\<close> (for \<open>undefined\<close> and for
  functions); inside an array such a value is written \<open>null\<close>, inside an object its
  property is left out.  A buffer is serialised through its \<open>toJSON\<close> method, an
  \<open>Error\<close> object has no enumerable property.
\<close>

definition dquote :: char where
  "dquote = CHR 0x22"

definition backslash :: char where
  "backslash = CHR 0x5C"

definition hex_char :: "nat \<Rightarrow> char" where
  "hex_char d = (if d < 10 then char_of (48 + d) else char_of (87 + d))"

definition quote_char :: "char \<Rightarrow> string" where
  "quote_char c =
     (if c = dquote then [backslash, dquote]
      else if c = backslash then [backslash, backslash]
      else if c = CHR 0x08 then [backslash, CHR ''b'']
      else if c = CHR 0x0C then [backslash, CHR ''f'']
      else if c = CHR 0x0A then [backslash, CHR ''n'']
      else if c = CHR 0x0D then [backslash, CHR ''r'']
      else if c = CHR 0x09 then [backslash, CHR ''t'']
      else if (of_char c :: nat) < 32
        then [backslash, CHR ''u'', CHR ''0'', CHR ''0'',
              hex_char (of_char c div 16), hex_char (of_char c mod 16)]
      else [c])"

definition quote :: "string \<Rightarrow> string" where
  "quote s = dquote # concat (map quote_char s) @ [dquote]"

fun json_text :: "jsval \<Rightarrow> string option" where
  "json_text Undefined = None"
| "json_text Null = Some ''null''"
| "json_text (Bool b) = Some (if b then ''true'' else ''false'')"
| "json_text (Num n) = Some (show_int n)"
| "json_text (Str s) = Some (quote s)"
| "json_text (Buf b) =
     Some (''{'' @ quote ''type'' @ '':'' @ quote ''Buffer'' @ '','' @ quote ''data'' @ '':[''
           @ join_strings '','' (map (\<lambda>c. show_nat (of_char c)) b) @ '']}'')"
| "json_text (Arr xs) =
     Some (''['' @ join_strings '',''
             (map (\<lambda>x. case json_text x of None \<Rightarrow> ''null'' | Some t \<Rightarrow> t) xs) @ '']'')"
| "json_text (Obj m) =
     Some (''{'' @ join_strings '',''
             (concat (map (\<lambda>(k, v). case json_text v of None \<Rightarrow> []
                                      | Some t \<Rightarrow> [quote k @ '':'' @ t]) m)) @ ''}'')"
| "json_text (Fun f) = None"
| "json_text (Err m) = Some ''{}''"

definition JSON_stringify :: "jsval \<Rightarrow> jsval" where
  "JSON_stringify v = (case json_text v of None \<Rightarrow> Undefined | Some t \<Rightarrow> Str t)"

text \<open>
  \<open>JSON.parse\<close>, \<open>None\<close> standing for the \<open>SyntaxError\<close> it throws.  The recursion
  is bounded by a fuel, for which \<open>JSON_parse\<close> takes the length of the text; that this
  is enough is proved below for every text that \<open>JSON.stringify\<close> writes.  A number
  literal with a fraction or an exponent denotes no value of this model and is not
  accepted; neither is a \<open>u\<close> escape above \<open>00ff\<close>.
\<close>

definition is_ws :: "char \<Rightarrow> bool" where
  "is_ws c \<longleftrightarrow> c = CHR '' '' \<or> c = CHR 0x09 \<or> c = CHR 0x0A \<or> c = CHR 0x0D"

definition skip_ws :: "string \<Rightarrow> string" where
  "skip_ws s = dropWhile is_ws s"

definition is_digit :: "char \<Rightarrow> bool" where
  "is_digit c \<longleftrightarrow> 48 \<le> (of_char c :: nat) \<and> (of_char c :: nat) \<le> 57"

definition digit_val :: "char \<Rightarrow> nat" where
  "digit_val c = of_char c - 48"

definition nat_of_digits :: "string \<Rightarrow> nat" where
  "nat_of_digits ds = foldl (\<lambda>a c. 10 * a + digit_val c) 0 ds"

definition hex_val :: "char \<Rightarrow> nat option" where
  "hex_val c =
     (let n = (of_char c :: nat) in
      if 48 \<le> n \<and> n \<le> 57 then Some (n - 48)
      else if 97 \<le> n \<and> n \<le> 102 then Some (n - 87)
      else if 65 \<le> n \<and> n \<le> 70 then Some (n - 55)
      else None)"

definition parse_number :: "string \<Rightarrow> (jsval \<times> string) option" where
  "parse_number s =
     (let neg = (s \<noteq> [] \<and> hd s = CHR ''-'');
          s1 = (if neg then tl s else s);
          ds = takeWhile is_digit s1;
          rest = dropWhile is_digit s1
      in if ds = [] then None
         else if hd ds = CHR ''0'' \<and> length ds > 1 then None
         else if rest \<noteq> [] \<and> hd rest \<in> {CHR ''.'', CHR ''e'', CHR ''E''} then None
         else Some (Num (if neg then - int (nat_of_digits ds) else int (nat_of_digits ds)), rest))"

text \<open>The characters of a string literal after its opening quote, up to the closing one.\<close>

fun parse_string :: "string \<Rightarrow> (string \<times> string) option" where
  "parse_string [] = None"
| "parse_string (c # cs) =
     (if c = dquote then Some ([], cs)
      else if c = backslash then
        (case cs of
           [] \<Rightarrow> None
         | e # r \<Rightarrow>
            if e = CHR ''u'' then
              (case r of
                 h1 # h2 # h3 # h4 # r' \<Rightarrow>
                   (case (hex_val h1, hex_val h2, hex_val h3, hex_val h4) of
                      (Some a, Some b, Some c', Some d) \<Rightarrow>
                        if a = 0 \<and> b = 0 then
                          (case parse_string r' of
                             Some (str, rest) \<Rightarrow> Some (char_of (16 * c' + d) # str, rest)
                           | None \<Rightarrow> None)
                        else None
                    | _ \<Rightarrow> None)
               | _ \<Rightarrow> None)
            else
              (case (if e = dquote then Some dquote
                     else if e = backslash then Some backslash
                     else if e = CHR ''/'' then Some CHR ''/''
                     else if e = CHR ''b'' then Some (CHR 0x08)
                     else if e = CHR ''f'' then Some (CHR 0x0C)
                     else if e = CHR ''n'' then Some (CHR 0x0A)
                     else if e = CHR ''r'' then Some (CHR 0x0D)
                     else if e = CHR ''t'' then Some (CHR 0x09)
                     else None) of
                 None \<Rightarrow> None
               | Some x \<Rightarrow>
                  (case parse_string r of
                     Some (str, rest) \<Rightarrow> Some (x # str, rest)
                   | None \<Rightarrow> None)))
      else if (of_char c :: nat) < 32 then None
      else (case parse_string cs of
              Some (str, rest) \<Rightarrow> Some (c # str, rest)
            | None \<Rightarrow> None))"

text \<open>
  Property assignment \<open>obj[name] = value\<close> on an object: an existing property keeps
  its place, a new one goes last.  A repeated name in a JSON text keeps its last value.
\<close>

fun obj_set :: "(string \<times> jsval) list \<Rightarrow> string \<Rightarrow> jsval \<Rightarrow> (string \<times> jsval) list" where
  "obj_set [] k v = [(k, v)]"
| "obj_set ((k', v') # m) k v = (if k' = k then (k, v) # m else (k', v') # obj_set m k v)"

definition obj_of_members :: "(string \<times> jsval) list \<Rightarrow> (string \<times> jsval) list" where
  "obj_of_members ms = foldl (\<lambda>m (k, v). obj_set m k v) [] ms"

fun parse_value :: "nat \<Rightarrow> string \<Rightarrow> (jsval \<times> string) option"
  and parse_elems :: "nat \<Rightarrow> string \<Rightarrow> (jsval list \<times> string) option"
  and parse_members :: "nat \<Rightarrow> string \<Rightarrow> ((string \<times> jsval) list \<times> string) option"
where
  "parse_value 0 s = None"
| "parse_value (Suc n) s =
     (case skip_ws s of
        [] \<Rightarrow> None
      | c # cs \<Rightarrow>
         if c = CHR ''['' then
           (case skip_ws cs of
              [] \<Rightarrow> None
            | d # r \<Rightarrow>
               if d = CHR '']'' then Some (Arr [], r)
               else (case parse_elems n cs of
                       None \<Rightarrow> None
                     | Some (vs, rest) \<Rightarrow> Some (Arr vs, rest)))
         else if c = CHR ''{'' then
           (case skip_ws cs of
              [] \<Rightarrow> None
            | d # r \<Rightarrow>
               if d = CHR ''}'' then Some (Obj [], r)
               else (case parse_members n cs of
                       None \<Rightarrow> None
                     | Some (ms, rest) \<Rightarrow> Some (Obj (obj_of_members ms), rest)))
         else if c = dquote then
           (case parse_string cs of
              None \<Rightarrow> None
            | Some (str, rest) \<Rightarrow> Some (Str str, rest))
         else if c = CHR ''n'' then
           (if take 3 cs = ''ull'' then Some (Null, drop 3 cs) else None)
         else if c = CHR ''t'' then
           (if take 3 cs = ''rue'' then Some (Bool True, drop 3 cs) else None)
         else if c = CHR ''f'' then
           (if take 4 cs = ''alse'' then Some (Bool False, drop 4 cs) else None)
         else parse_number (c # cs))"
| "parse_elems 0 s = None"
| "parse_elems (Suc n) s =
     (case parse_value n s of
        None \<Rightarrow> None
      | Some (v, r) \<Rightarrow>
         (case skip_ws r of
            [] \<Rightarrow> None
          | c # r' \<Rightarrow>
             if c = CHR '','' then
               (case parse_elems n r' of
                  None \<Rightarrow> None
                | Some (vs, rest) \<Rightarrow> Some (v # vs, rest))
             else if c = CHR '']'' then Some ([v], r')
             else None))"
| "parse_members 0 s = None"
| "parse_members (Suc n) s =
     (case skip_ws s of
        [] \<Rightarrow> None
      | q # cs \<Rightarrow>
         if q \<noteq> dquote then None
         else (case parse_string cs of
                 None \<Rightarrow> None
               | Some (k, r) \<Rightarrow>
                  (case skip_ws r of
                     [] \<Rightarrow> None
                   | c # r1 \<Rightarrow>
                      if c \<noteq> CHR '':'' then None
                      else (case parse_value n r1 of
                              None \<Rightarrow> None
                            | Some (v, r2) \<Rightarrow>
                               (case skip_ws r2 of
                                  [] \<Rightarrow> None
                                | d # r3 \<Rightarrow>
                                   if d = CHR '','' then
                                     (case parse_members n r3 of
                                        None \<Rightarrow> None
                                      | Some (ms, rest) \<Rightarrow> Some ((k, v) # ms, rest))
                                   else if d = CHR ''}'' then Some ([(k, v)], r3)
                                   else None)))))"

definition JSON_parse :: "string \<Rightarrow> jsval option" where
  "JSON_parse s =
     (case parse_value (Suc (length s)) s of
        None \<Rightarrow> None
      | Some (v, rest) \<Rightarrow> if skip_ws rest = [] then Some v else None)"

section \<open>Value conversion\<close>

text \<open>
  \<open>convertValue(value, cast)\<close>.  The parameter \<open>cast\<close> is whatever the caller passes:
  the parse is skipped only when it is exactly \<open>false\<close>.
\<close>

definition convertValue :: "jsval \<Rightarrow> jsval \<Rightarrow> jsval" where
  "convertValue value cast =
     (if value = Null \<or> value = Undefined then value
      else let val = (if isBuffer value then Str (ToString value) else value) in
        if cast \<noteq> Bool False \<and> typeof val = TString then
          (case JSON_parse (ToString val) of
             Some parsed \<Rightarrow> parsed
           | None \<Rightarrow> val)
        else val)"

text \<open>
  \<open>wrapData\<close> defines a lazily converting getter on \<open>target\<close>, unless the name is
  already there; the model holds the value the getter returns.
\<close>

definition wrapData ::
  "(string \<times> jsval) list \<Rightarrow> string \<Rightarrow> jsval \<Rightarrow> bool \<Rightarrow> jsval \<Rightarrow> (string \<times> jsval) list" where
  "wrapData target name value rawBuffer cast =
     (if name \<in> set (map fst target) then target
      else target @
        [(name, if value = Null \<or> value = Undefined \<or> (rawBuffer \<and> isBuffer value) then value
                else convertValue value cast)])"

definition store_stringify :: "store \<Rightarrow> jsval \<Rightarrow> jsval" where
  "store_stringify st value =
     (if \<not> autoCast st \<or> isBuffer value \<or> typeof value = TString then value
      else JSON_stringify value)"

definition store_parse :: "store \<Rightarrow> jsval \<Rightarrow> jsval" where
  "store_parse st value =
     (if isBuffer value then value else convertValue value (Bool (autoCast st)))"

text \<open>
  The reply handlers of \<open>get\<close> read \<open>self._autoCast\<close>.  The constructor defines the
  properties \<open>delimiter\<close>, \<open>autoCast\<close> and \<open>client\<close>, and nothing defines one of that
  name, so the read yields \<open>undefined\<close> whatever the configuration.
\<close>

definition self_underscore_autoCast :: "store \<Rightarrow> jsval" where
  "self_underscore_autoCast st = Undefined"

text \<open>\<open>createBuffer\<close> through \<open>Buffer.from\<close>, which throws a \<open>TypeError\<close> on a number.\<close>

fun createBuffer :: "jsval \<Rightarrow> jsval option" where
  "createBuffer (Str s) = Some (Buf s)"
| "createBuffer v = None"

text \<open>\<open>parseInt(text, 10)\<close>; \<open>None\<close> is \<open>NaN\<close>.\<close>

definition is_space :: "char \<Rightarrow> bool" where
  "is_space c \<longleftrightarrow> c = CHR '' '' \<or> (9 \<le> (of_char c :: nat) \<and> (of_char c :: nat) \<le> 13)"

definition parseInt10 :: "string \<Rightarrow> int option" where
  "parseInt10 s =
     (let s1 = dropWhile is_space s;
          neg = (s1 \<noteq> [] \<and> hd s1 = CHR ''-'');
          s2 = (if s1 \<noteq> [] \<and> (hd s1 = CHR ''-'' \<or> hd s1 = CHR ''+'') then tl s1 else s1);
          ds = takeWhile is_digit s2
      in if ds = [] then None
         else Some (if neg then - int (nat_of_digits ds) else int (nat_of_digits ds)))"

text \<open>
  The own enumerable properties that \<open>Object.keys\<close> walks on an object: the entries of
  a plain object, the indices of an array or a buffer, none for a function or an
  \<open>Error\<close>.
\<close>

fun own_entries :: "jsval \<Rightarrow> (string \<times> jsval) list" where
  "own_entries (Obj m) = m"
| "own_entries (Arr xs) = zip (map show_nat [0..<length xs]) xs"
| "own_entries (Buf b) = zip (map show_nat [0..<length b]) (map (\<lambda>c. Num (of_char c)) b)"
| "own_entries v = []"

section \<open>Effects\<close>

text \<open>
  A method call returns a value and leaves a trace: the commands it hands to the Redis
  client, each with the reply handler it passes along, the callbacks it invokes itself,
  and the assignments it makes to properties of an object the caller passed in.  The
  client answers a command later by calling its handler with \<open>(err, data)\<close>; what the
  handler then does is given by \<open>reply\<close>.
\<close>

datatype command =
    HGETALL jsval
  | HMGET jsval "jsval list"
  | HMSET jsval jsval
  | KEYS jsval
  | HEXISTS jsval jsval
  | HDEL "jsval list"
  | DEL "jsval list"
  | HKEYS jsval

datatype handler =
    Callback jsval
  | GetAllReply jsval bool
  | GetManyReply jsval "jsval list" bool
  | NamesReply jsval
  | ExistsReply jsval
  | DelReply jsval

datatype event =
    Issue command handler
  | Invoke jsval "jsval list"
  | Assign jsval string jsval

text \<open>
  What a method returns: the store itself, or the value of a callback invocation it
  returns directly, or nothing because an exception leaves it.
\<close>

datatype result = This | ResultOf jsval "jsval list" | Throws string

definition noop :: jsval where
  "noop = Fun ''function() {}''"

definition map_convertValue :: "jsval list \<Rightarrow> jsval list" where
  "map_convertValue xs = map (\<lambda>(x, i). convertValue x (Num (int i))) (zip xs [0..<length xs])"

fun reply :: "store \<Rightarrow> handler \<Rightarrow> jsval \<Rightarrow> jsval \<Rightarrow> event list" where
  "reply st (Callback f) err data = (if typeof f = TFunction then [Invoke f [err, data]] else [])"
| "reply st (GetAllReply cb asBuffer) err data =
     (let output =
        (if truthy data \<and> isObject data then
           Obj (foldl (\<lambda>out (name, v). wrapData out name v asBuffer (self_underscore_autoCast st))
                  [] (own_entries data))
         else Undefined)
      in [Invoke cb [err, output]])"
| "reply st (GetManyReply cb args asBuffer) err data =
     (let output =
        (if isArray data then
           (if length args = 1 then
              (let val = (if elems data = [] then Undefined else hd (elems data)) in
               if asBuffer \<and> isBuffer val then val
               else convertValue val (self_underscore_autoCast st))
            else if length args = length (elems data) then
              Obj (foldl (\<lambda>out (name, v).
                            wrapData out (ToString name) v asBuffer (self_underscore_autoCast st))
                     [] (zip args (elems data)))
            else Undefined)
         else Undefined)
      in [Invoke cb [err, if output = Undefined then Null else output]])"
| "reply st (NamesReply cb) err names =
     [Invoke cb [err, if isArray names then Arr (map_convertValue (elems names)) else names]]"
| "reply st (ExistsReply cb) err exists =
     (let is_one = (if isBuffer exists then parseInt10 (ToString exists) = Some 1
                    else exists = Num 1)
      in [Invoke cb [Null, Bool is_one]])"
| "reply st (DelReply cb) err data =
     (if typeof cb = TFunction then [Invoke cb [err]] else [])"

section \<open>The methods\<close>

text \<open>
  \<open>get\<close>, \<open>set\<close>, \<open>del\<close> and \<open>flush\<close> read \<open>arguments\<close>; \<open>pop\<close> and \<open>shift\<close>
  give \<open>undefined\<close> on an empty array, and so does the read \<open>args[0]\<close>, for which
  \<open>shift_value\<close> stands as well.  \<open>keys\<close>, \<open>exists\<close> and \<open>fields\<close> have named
  parameters, \<open>Undefined\<close> when the call leaves one out.  The method \<open>set\<close> is
  \<open>set_hash\<close> here, and \<open>_stringify\<close> and \<open>_parse\<close> are \<open>store_stringify\<close> and
  \<open>store_parse\<close>.
\<close>

definition pop_value :: "jsval list \<Rightarrow> jsval" where
  "pop_value args = (if args = [] then Undefined else last args)"

definition shift_value :: "jsval list \<Rightarrow> jsval" where
  "shift_value args = (if args = [] then Undefined else hd args)"

definition unwrap :: "jsval list \<Rightarrow> jsval list" where
  "unwrap args = (if length args = 1 \<and> isArray (args ! 0) then elems (args ! 0) else args)"

definition or_noop :: "jsval \<Rightarrow> jsval" where
  "or_noop cb = (if truthy cb then cb else noop)"

definition get :: "store \<Rightarrow> jsval list \<Rightarrow> result \<times> event list" where
  "get st arguments =
     (let cb = pop_value arguments;
          args0 = butlast arguments;
          key = cacheKey st (shift_value args0);
          args1 = tl args0
      in if typeof cb \<noteq> TFunction then (This, [])
         else if truthy key then
           (let args2 = unwrap args1;
                len = length args2;
                flagged = ((len \<noteq> 0 \<and> shift_value args2 = Bool True)
                           \<or> shift_value args2 = Bool False);
                asBuffer = (flagged \<and> shift_value args2 = Bool True);
                args3 = (if flagged then tl args2 else args2)
            in case (if asBuffer then createBuffer key else Some key) of
                 None \<Rightarrow> (Throws ''TypeError'', [])
               | Some k \<Rightarrow>
                  if length args3 = 0 then (This, [Issue (HGETALL k) (GetAllReply cb asBuffer)])
                  else (This, [Issue (HMGET k args3) (GetManyReply cb args3 asBuffer)]))
         else (This, [Invoke cb [Err ''Invalid key'']]))"

text \<open>The loop of \<open>set\<close> over the arguments, two at a time.\<close>

function set_loop ::
  "store \<Rightarrow> jsval list \<Rightarrow> nat \<Rightarrow> (string \<times> jsval) list \<Rightarrow> (string \<times> jsval) list" where
  "set_loop st args i data =
     (if i < length args then
        set_loop st args (i + 2)
          (if i + 1 < length args
           then obj_set data (ToString (args ! i)) (store_stringify st (args ! (i + 1)))
           else data)
      else data)"
  by pat_completeness auto
termination
  by (relation "measure (\<lambda>(st, args, i, data). length args - i)") auto

declare set_loop.simps [simp del]

text \<open>
  The object handed over as the field map after \<open>data[val] = self._stringify(data[val])\<close>
  ran over its keys.  An assignment to an index of a buffer stores the number the
  assigned value converts to, which is the byte that was there.
\<close>

fun stringify_fields :: "store \<Rightarrow> jsval \<Rightarrow> jsval" where
  "stringify_fields st (Obj m) = Obj (map (\<lambda>(name, v). (name, store_stringify st v)) m)"
| "stringify_fields st (Arr xs) = Arr (map (store_stringify st) xs)"
| "stringify_fields st v = v"

definition set_hash :: "store \<Rightarrow> jsval list \<Rightarrow> result \<times> event list" where
  "set_hash st arguments =
     (let cb0 = pop_value arguments;
          args0 = butlast arguments;
          key = cacheKey st (shift_value args0);
          args1 = tl args0;
          pushed = (truthy cb0 \<and> typeof cb0 \<noteq> TFunction);
          args2 = (if pushed then args1 @ [cb0] else args1);
          cb = (if pushed then Null else cb0);
          (err, trace) =
            (if truthy key then
               (let args3 = unwrap args2 in
                if length args3 = 0 then (Err ''Invalid data'', [])
                else
                  (let args4 = unwrap args3 in
                   if length args4 = 1 then
                     (if isObject (args4 ! 0) then
                        (Null,
                         map (\<lambda>(name, v). Assign (args4 ! 0) name (store_stringify st v))
                           (own_entries (args4 ! 0))
                         @ [Issue (HMSET key (stringify_fields st (args4 ! 0)))
                              (Callback (or_noop cb))])
                      else (Null, [Issue (HMSET key Undefined) (Callback (or_noop cb))]))
                   else
                     (Null,
                      [Issue (HMSET key
                         (Obj (if length args4 = 2
                               then obj_set [] (ToString (args4 ! 0)) (store_stringify st (args4 ! 1))
                               else set_loop st args4 0 [])))
                         (Callback (or_noop cb))])))
             else (Err ''Invalid key'', []))
      in (This, trace @ (if truthy err \<and> typeof cb = TFunction then [Invoke cb [err, Num 0]] else [])))"

definition keys :: "store \<Rightarrow> jsval \<Rightarrow> jsval \<Rightarrow> result \<times> event list" where
  "keys st pattern cb =
     (if typeof pattern = TFunction then (This, [Invoke pattern [Err ''Invalid pattern'']])
      else if typeof cb \<noteq> TFunction then (This, [])
      else
        (let pattern' = (if isArray pattern then cacheKey st pattern else pattern);
             type = typeof pattern'
         in if (type = TString \<and> truthy pattern') \<or> type = TNumber
            then (This, [Issue (KEYS pattern') (NamesReply cb)])
            else (This, [Invoke cb [Err ''Invalid pattern'']])))"

definition exists :: "store \<Rightarrow> jsval \<Rightarrow> jsval \<Rightarrow> jsval \<Rightarrow> result \<times> event list" where
  "exists st key field cb =
     (let early =
        (if typeof key = TFunction then [Invoke key [Err ''Invalid key'']]
         else if typeof field = TFunction then [Invoke field [Err ''Invalid field'']]
         else [])
      in if typeof cb \<noteq> TFunction then (This, early)
         else
           (let key' = cacheKey st key in
            if \<not> truthy key'
            then (ResultOf cb [Err ''Invalid key''], early @ [Invoke cb [Err ''Invalid key'']])
            else (This, early @ [Issue (HEXISTS key' field) (ExistsReply cb)])))"

definition del :: "store \<Rightarrow> jsval list \<Rightarrow> result \<times> event list" where
  "del st arguments =
     (let cb0 = pop_value arguments;
          args0 = butlast arguments;
          key = cacheKey st (shift_value args0);
          args1 = tl args0;
          pushed = (typeof cb0 \<noteq> TFunction);
          args2 = (if pushed then args1 @ [cb0] else args1);
          cb = (if pushed then Null else cb0)
      in if truthy key then
           (This, [Issue (HDEL (key # unwrap args2)) (DelReply cb)])
         else (This, if typeof cb = TFunction then [Invoke cb [Err ''Invalid key'']] else []))"

definition flush :: "store \<Rightarrow> jsval list \<Rightarrow> result \<times> event list" where
  "flush st arguments =
     (let popped = (length arguments > 0 \<and> \<not> isArray (last arguments));
          cb = (if popped then last arguments else Undefined);
          args1 = (if popped then butlast arguments else arguments);
          args2 = unwrap args1
      in if length args2 > 0 then
           (This, [Issue (DEL (map (cacheKey st) args2)) (Callback (or_noop cb))])
         else (This, if typeof cb = TFunction then [Invoke cb [Err ''Invalid key'']] else []))"

definition fields :: "store \<Rightarrow> jsval \<Rightarrow> jsval \<Rightarrow> result \<times> event list" where
  "fields st key cb =
     (let early = (if typeof key = TFunction then [Invoke key [Err ''Invalid key'']] else [])
      in if typeof cb \<noteq> TFunction then (This, early)
         else
           (let key' = cacheKey st key in
            if \<not> truthy key'
            then (ResultOf cb [Err ''Invalid key''], early @ [Invoke cb [Err ''Invalid key'']])
            else (This, early @ [Issue (HKEYS key' ) (NamesReply cb)])))"

section \<open>Reading a trace\<close>




section \<open>Values that JSON represents\<close>







section \<open>Evaluating digits\<close>

lemma digit_char_simps:
  "digit_char 0 = CHR ''0''" "digit_char (Suc 0) = CHR ''1''" "digit_char 1 = CHR ''1''"
  "digit_char 2 = CHR ''2''" "digit_char 3 = CHR ''3''" "digit_char 4 = CHR ''4''"
  "digit_char 5 = CHR ''5''" "digit_char 6 = CHR ''6''" "digit_char 7 = CHR ''7''"
  "digit_char 8 = CHR ''8''" "digit_char 9 = CHR ''9''"
  by (simp_all add: digit_char_def char_of_def bit_Suc_0_iff)

section \<open>Objects with distinct names\<close>




section \<open>The key composer\<close>

lemma show_nat_nonempty: "show_nat n \<noteq> []"
  by (subst show_nat.simps) simp

lemma show_int_nonempty: "show_int i \<noteq> []"
  by (simp add: show_int_def show_nat_nonempty)

text \<open>A constructed store always has a delimiter, and its string form is not empty.\<close>

lemma delimiter_RedisStore:
  "delimiter (RedisStore opts) \<noteq> Undefined \<and> ToString (delimiter (RedisStore opts)) \<noteq> []"
  by (cases "opt_delimiter opts") (simp_all add: RedisStore_def Let_def show_int_nonempty)

lemma cacheKey_array:
  "xs \<noteq> [] \<Longrightarrow> cacheKey (RedisStore opts) (Arr xs) =
     Str (join_strings (ToString (delimiter (RedisStore opts))) (map elem_string xs))"
  using delimiter_RedisStore [of opts] by (simp add: cacheKey_def join_def)

text \<open>
  Claim C1, as the code has it.  On a constructed store, \<open>cacheKey\<close> joins a non-empty
  array into one string: the string forms of its elements with the delimiter's string
  form between consecutive ones, where an element \<open>null\<close> or \<open>undefined\<close> contributes
  the empty string; for two elements that is \<open>a + d + b\<close>.  The joined string is
  non-empty when the array has two or more elements or its first element has a non-empty
  string form.  A non-empty string and any number are returned unchanged.  Every other
  input (empty array, empty string, \<open>null\<close>, \<open>undefined\<close>, boolean, non-array object)
  gives \<open>undefined\<close>, the invalid key.
\<close>

theorem cacheKey_cases:
  "(xs \<noteq> [] \<longrightarrow>
      cacheKey (RedisStore opts) (Arr xs) =
        Str (join_strings (ToString (delimiter (RedisStore opts))) (map elem_string xs)))
   \<and> cacheKey (RedisStore opts) (Arr [a, b]) =
        Str (elem_string a @ ToString (delimiter (RedisStore opts)) @ elem_string b)
   \<and> (2 \<le> length xs \<or> (xs \<noteq> [] \<and> elem_string (hd xs) \<noteq> []) \<longrightarrow>
        (\<exists>s. s \<noteq> [] \<and> cacheKey (RedisStore opts) (Arr xs) = Str s))
   \<and> (s \<noteq> [] \<longrightarrow> cacheKey (RedisStore opts) (Str s) = Str s)
   \<and> cacheKey (RedisStore opts) (Num n) = Num n
   \<and> (\<not> (isArray key \<and> elems key \<noteq> []) \<and> \<not> (typeof key = TString \<and> key \<noteq> Str [])
        \<and> typeof key \<noteq> TNumber \<longrightarrow> cacheKey (RedisStore opts) key = Undefined)"
proof (intro conjI impI)
  assume "xs \<noteq> []"
  then show "cacheKey (RedisStore opts) (Arr xs) =
        Str (join_strings (ToString (delimiter (RedisStore opts))) (map elem_string xs))"
    by (rule cacheKey_array)
next
  show "cacheKey (RedisStore opts) (Arr [a, b]) =
        Str (elem_string a @ ToString (delimiter (RedisStore opts)) @ elem_string b)"
    by (simp add: cacheKey_array)
next
  assume h: "2 \<le> length xs \<or> (xs \<noteq> [] \<and> elem_string (hd xs) \<noteq> [])"
  have sep: "ToString (delimiter (RedisStore opts)) \<noteq> []"
    using delimiter_RedisStore by simp
  have ne: "xs \<noteq> []" using h by auto
  have "join_strings (ToString (delimiter (RedisStore opts))) (map elem_string xs) \<noteq> []"
  proof (cases xs)
    case Nil
    with ne show ?thesis by simp
  next
    case (Cons x ys)
    show ?thesis
    proof (cases ys)
      case Nil
      with Cons h show ?thesis by simp
    next
      case (Cons y zs)
      with \<open>xs = x # ys\<close> sep show ?thesis by simp
    qed
  qed
  with ne show "\<exists>s. s \<noteq> [] \<and> cacheKey (RedisStore opts) (Arr xs) = Str s"
    by (simp add: cacheKey_array)
next
  assume "s \<noteq> []"
  then show "cacheKey (RedisStore opts) (Str s) = Str s"
    by (simp add: cacheKey_def)
next
  show "cacheKey (RedisStore opts) (Num n) = Num n"
    by (simp add: cacheKey_def)
next
  assume "\<not> (isArray key \<and> elems key \<noteq> []) \<and> \<not> (typeof key = TString \<and> key \<noteq> Str [])
        \<and> typeof key \<noteq> TNumber"
  then show "cacheKey (RedisStore opts) key = Undefined"
    by (cases key) (auto simp: cacheKey_def)
qed

theorem cacheKey_cases_witness:
  "cacheKey (RedisStore \<lparr>opt_delimiter = Str ''-'', opt_autoCast = Undefined\<rparr>)
      (Arr [Str ''alpha'', Num 7]) = Str ''alpha-7''
   \<and> (\<exists>s. s \<noteq> [] \<and> cacheKey (RedisStore \<lparr>opt_delimiter = Str ''-'', opt_autoCast = Undefined\<rparr>)
         (Arr [Str ''alpha'', Num 7]) = Str s)
   \<and> cacheKey (RedisStore \<lparr>opt_delimiter = Str ''-'', opt_autoCast = Undefined\<rparr>) (Str ''icao'')
      = Str ''icao''
   \<and> cacheKey (RedisStore \<lparr>opt_delimiter = Str ''-'', opt_autoCast = Undefined\<rparr>) (Bool True)
      = Undefined"
  using cacheKey_cases [of "[Str ''alpha'', Num 7]"
      "\<lparr>opt_delimiter = Str ''-'', opt_autoCast = Undefined\<rparr>"
      "Str ''alpha''" "Num 7" "''icao''" 0 "Bool True"]
  by (simp add: elem_string_def RedisStore_def show_int_def show_nat.simps digit_char_simps)

text \<open>
  The joined key can be empty: with the default delimiter, the array holding only the
  empty string is joined into the empty string.
\<close>

theorem cacheKey_empty_counterexample:
  "cacheKey (RedisStore \<lparr>opt_delimiter = Undefined, opt_autoCast = Undefined\<rparr>) (Arr [Str []])
     = Str []"
  by (simp add: cacheKey_def join_def elem_string_def RedisStore_def)

section \<open>The JSON round trip\<close>

subsection \<open>Numbers\<close>
















subsection \<open>Strings\<close>





subsection \<open>Texts of values\<close>








subsection \<open>Parsing the text of a value\<close>

















section \<open>Decoding on read\<close>

lemma JSON_parse_13: "JSON_parse ''13'' = Some (Num 13)"
  by code_simp

lemma JSON_parse_dot_dash: "JSON_parse ''dot dash'' = None"
  by code_simp



text \<open>
  Claim C3 asks that a store with \<open>autoCast\<close> disabled delivers the stored text as it
  is.  The reply handlers of \<open>get\<close> pass \<open>self._autoCast\<close>, which is \<open>undefined\<close> on
  every store, where \<open>_parse\<close> passes \<open>this.autoCast\<close>.  So on any store, also one
  with \<open>autoCast\<close> disabled, the stored text \<open>13\<close> reaches the callback as the number 13
  in the single-field, the multi-field and the all-fields read, while \<open>_parse\<close> of the
  same store returns the text.
\<close>

theorem get_reply_ignores_autoCast:
  "reply st (GetManyReply cb [Str ''xray''] False) err (Arr [Str ''13''])
     = [Invoke cb [err, Num 13]]
   \<and> reply st (GetManyReply cb [Str ''alpha'', Str ''xray''] False) err
        (Arr [Str ''dot dash'', Str ''13''])
     = [Invoke cb [err, Obj [(''alpha'', Str ''dot dash''), (''xray'', Num 13)]]]
   \<and> reply st (GetAllReply cb False) err (Obj [(''alpha'', Str ''dot dash''), (''xray'', Str ''13'')])
     = [Invoke cb [err, Obj [(''alpha'', Str ''dot dash''), (''xray'', Num 13)]]]
   \<and> get \<lparr>delimiter = Str '':'', autoCast = False\<rparr> [Str ''icao'', Str ''xray'', Fun ''cb'']
     = (This, [Issue (HMGET (Str ''icao'') [Str ''xray''])
                 (GetManyReply (Fun ''cb'') [Str ''xray''] False)])
   \<and> store_parse \<lparr>delimiter = Str '':'', autoCast = False\<rparr> (Str ''13'') = Str ''13''"
  by (simp add: self_underscore_autoCast_def convertValue_def wrapData_def JSON_parse_13
        JSON_parse_dot_dash store_parse_def get_def pop_value_def shift_value_def cacheKey_def
        unwrap_def Let_def)

section \<open>Writing\<close>



text \<open>
  Claim C4 asks that a write with one remaining argument that is no object is rejected
  with \<open>Invalid data\<close> and reaches no command.  The branch \<open>len === 1\<close> of \<open>set\<close>
  assigns \<open>data\<close> only for an object and has no \<open>else\<close>: for a lone field name
  \<open>data\<close> stays \<open>undefined\<close>, no error is set, and \<open>hmset\<close> is issued with it.  Only
  the case of no remaining argument gives \<open>Invalid data\<close>.
\<close>

theorem set_single_field_issues_undefined:
  "set_hash st [Str ''icao'', Str ''alpha'', Fun ''cb'']
     = (This, [Issue (HMSET (Str ''icao'') Undefined) (Callback (Fun ''cb''))])
   \<and> set_hash st [Str ''icao'', Arr [Str ''alpha''], Fun ''cb'']
     = (This, [Issue (HMSET (Str ''icao'') Undefined) (Callback (Fun ''cb''))])
   \<and> set_hash st [Str ''icao'', Fun ''cb'']
     = (This, [Invoke (Fun ''cb'') [Err ''Invalid data'', Num 0]])"
  by (simp add: set_hash_def pop_value_def shift_value_def cacheKey_def unwrap_def or_noop_def)











section \<open>Errors of the engine\<close>

text \<open>
  The reply handlers of \<open>get\<close>, \<open>keys\<close>, \<open>fields\<close> and \<open>del\<close>, and the callback that
  \<open>set\<close> and \<open>flush\<close> hand to the client, pass the engine's error on as the first
  argument of the callback.
\<close>

lemma handlers_pass_error:
  "typeof cb = TFunction \<Longrightarrow>
     (\<exists>out. reply st (GetAllReply cb b) err data = [Invoke cb [err, out]])
     \<and> (\<exists>out. reply st (GetManyReply cb args b) err data = [Invoke cb [err, out]])
     \<and> (\<exists>out. reply st (NamesReply cb) err data = [Invoke cb [err, out]])
     \<and> reply st (DelReply cb) err data = [Invoke cb [err]]
     \<and> reply st (Callback cb) err data = [Invoke cb [err, data]]"
  by (simp add: Let_def)

text \<open>
  Claim C5 asks that an error of the engine always reaches the callback unchanged.  The
  reply handler of \<open>exists\<close> calls \<open>cb(null, val === 1)\<close>: whatever error the client
  reports for \<open>hexists\<close>, the callback receives \<open>null\<close> as the error and \<open>false\<close> as
  the answer.
\<close>

theorem exists_reply_drops_error:
  "exists st (Str ''icao'') (Str ''bravo'') (Fun ''cb'')
     = (This, [Issue (HEXISTS (Str ''icao'') (Str ''bravo'')) (ExistsReply (Fun ''cb''))])
   \<and> reply st (ExistsReply (Fun ''cb'')) (Err ''Connection lost'') Undefined
     = [Invoke (Fun ''cb'') [Null, Bool False]]"
  by (simp add: exists_def cacheKey_def)

section \<open>Calls without a callback, and what a call returns\<close>








text \<open>\<open>set\<close>, \<open>keys\<close>, \<open>del\<close> and \<open>flush\<close> return the store on every path.\<close>

lemma methods_returning_this:
  "fst (set_hash st arguments) = This \<and> fst (keys st pattern cb) = This
   \<and> fst (del st arguments) = This \<and> fst (flush st arguments) = This"
  by (simp add: set_hash_def keys_def del_def flush_def Let_def split_beta)

text \<open>
  Claim C8 asks that every method returns the store on every argument shape, as the
  comment of each method says (\<open>@return {this} for chaining\<close>).  \<open>exists\<close> and
  \<open>fields\<close> leave through \<open>return cb(new Error('Invalid key'))\<close> when the key is
  invalid: the call returns what the callback returns.
\<close>

theorem invalid_key_returns_callback_result:
  "exists st Null (Str ''bravo'') (Fun ''cb'')
     = (ResultOf (Fun ''cb'') [Err ''Invalid key''], [Invoke (Fun ''cb'') [Err ''Invalid key'']])
   \<and> fields st Null (Fun ''cb'')
     = (ResultOf (Fun ''cb'') [Err ''Invalid key''], [Invoke (Fun ''cb'') [Err ''Invalid key'']])"
  by (simp add: exists_def fields_def cacheKey_def)

section \<open>Names returned by \<open>keys\<close> and \<open>fields\<close>\<close>

lemma map_convertValue_nth:
  "i < length names \<Longrightarrow> map_convertValue names ! i = convertValue (names ! i) (Num (int i))"
  by (simp add: map_convertValue_def)

text \<open>
  Claim C10.  \<open>fields\<close> and \<open>keys\<close> issue their command with a handler that maps
  \<open>convertValue\<close> over the returned names, so that the name at index \<open>i\<close> is converted
  with \<open>i\<close> as the cast flag.  No index is \<open>false\<close>: whatever \<open>autoCast\<close> the store
  has, a name that is JSON text reaches the callback as the parsed value, the key
  \<open>13\<close> as the number 13.
\<close>

theorem names_always_parsed:
  "(typeof cb = TFunction \<and> truthy (cacheKey st key) \<longrightarrow>
      fields st key cb = (This, [Issue (HKEYS (cacheKey st key)) (NamesReply cb)]))
   \<and> (typeof cb = TFunction \<and> typeof pattern = TString \<and> truthy pattern \<longrightarrow>
      keys st pattern cb = (This, [Issue (KEYS pattern) (NamesReply cb)]))
   \<and> reply st (NamesReply cb) err (Arr names) = [Invoke cb [err, Arr (map_convertValue names)]]
   \<and> length (map_convertValue names) = length names
   \<and> (i < length names \<longrightarrow>
        map_convertValue names ! i = convertValue (names ! i) (Num (int i)))
   \<and> (i < length names \<and> (names ! i = Str s \<or> names ! i = Buf s) \<and> JSON_parse s = Some v \<longrightarrow>
        map_convertValue names ! i = v)"
proof (intro conjI impI)
  assume h: "typeof cb = TFunction \<and> truthy (cacheKey st key)"
  then have "typeof key \<noteq> TFunction" by (cases key) (auto simp: cacheKey_def)
  with h show "fields st key cb = (This, [Issue (HKEYS (cacheKey st key)) (NamesReply cb)])"
    by (simp add: fields_def Let_def)
next
  assume "typeof cb = TFunction \<and> typeof pattern = TString \<and> truthy pattern"
  then show "keys st pattern cb = (This, [Issue (KEYS pattern) (NamesReply cb)])"
    by (cases pattern) (simp_all add: keys_def Let_def)
next
  show "reply st (NamesReply cb) err (Arr names) = [Invoke cb [err, Arr (map_convertValue names)]]"
    by simp
next
  show "length (map_convertValue names) = length names"
    by (simp add: map_convertValue_def)
next
  assume "i < length names"
  then show "map_convertValue names ! i = convertValue (names ! i) (Num (int i))"
    by (rule map_convertValue_nth)
next
  assume "i < length names \<and> (names ! i = Str s \<or> names ! i = Buf s) \<and> JSON_parse s = Some v"
  then show "map_convertValue names ! i = v"
    by (auto simp: map_convertValue_nth convertValue_def)
qed

theorem names_always_parsed_witness:
  "fields \<lparr>delimiter = Str '':'', autoCast = False\<rparr> (Str ''icao'') (Fun ''cb'')
     = (This, [Issue (HKEYS (Str ''icao'')) (NamesReply (Fun ''cb''))])
   \<and> keys \<lparr>delimiter = Str '':'', autoCast = False\<rparr> (Str ''*'') (Fun ''cb'')
     = (This, [Issue (KEYS (Str ''*'')) (NamesReply (Fun ''cb''))])
   \<and> reply \<lparr>delimiter = Str '':'', autoCast = False\<rparr> (NamesReply (Fun ''cb'')) Null
       (Arr [Str ''alpha'', Str ''13''])
     = [Invoke (Fun ''cb'') [Null, Arr (map_convertValue [Str ''alpha'', Str ''13''])]]
   \<and> map_convertValue [Str ''alpha'', Str ''13''] ! 1 = Num 13"
  using names_always_parsed [of "Fun ''cb''" "\<lparr>delimiter = Str '':'', autoCast = False\<rparr>"
      "Str ''icao''" "Str ''*''" Null "[Str ''alpha'', Str ''13'']" 1 "''13''" "Num 13"]
  by (simp add: cacheKey_def JSON_parse_13 convertValue_def)

end
